theory Spec2Isabelle
  imports Main
begin

section \<open>Data model\<close>

text \<open>
  Python strings are modelled as \<^typ>\<open>string\<close>; one \<^typ>\<open>char\<close> stands for one
  character of a Python \<open>str\<close>. Nothing below depends on the size of the alphabet:
  the code only compares strings, tests them for emptiness, concatenates them and
  takes the slice \<open>[:300]\<close>.
\<close>

text \<open>
  One item of \<open>qa_database["questions"]\<close>: a dict with the keys \<open>"question"\<close> and
  \<open>"answer"\<close>, both text (section 3 of the specification, QAEntry).
\<close>

record qa_entry =
  question :: string
  answer :: string

text \<open>
  The loaded database, the dict \<open>{"questions": [...]}\<close>. The list keeps the order and
  the duplicates of the JSON file.
\<close>

record qa_database =
  questions :: "qa_entry list"

text \<open>
  The agent after \<open>__init__\<close>: the database and the value of
  \<open>os.getenv("TAVILY_API_KEY")\<close> (\<open>None\<close> when the variable is not set).
\<close>

record answer_agent =
  agent_database :: qa_database
  tavily_api_key :: "string option"

text \<open>The dict \<open>{"source": ..., "answer": ...}\<close> returned by \<open>get_answer\<close>.\<close>

record answer_result =
  source :: string
  result_answer :: string

text \<open>
  Exceptions as values. \<open>Raised msg\<close> is an instance of \<open>Exception\<close> raised by an
  external call (the search client, an HTTP request, a file write), with
  \<open>str(e) = msg\<close>.
\<close>

datatype py_error = TypeError | KeyError | Raised string

section \<open>The scoring library\<close>

text \<open>
  \<open>fuzzywuzzy.process.extractOne\<close> is a third-party function; its scorer is a
  parameter of the model: \<open>scorer query choice\<close> is the similarity score the library
  computes for one choice. Scores are natural numbers, as the library's are (0 to 100).
\<close>

type_synonym scorer = "string \<Rightarrow> string \<Rightarrow> nat"

text \<open>
  Modelled from the spec: the selection made by \<open>process.extractOne(query, questions)\<close>,
  which is not part of the repository. Section 4.1: a score is computed between the
  query and every stored question, the single highest-scoring one is selected, and the first
  maximum encountered wins. The library keeps the choices whose score reaches its cutoff
  (0 by default) and takes Python's \<open>max\<close> by score over them, which replaces the
  running best only by a strictly greater one; with no choice left it returns \<open>None\<close>.
\<close>

definition extractWithoutOrder ::
  "scorer \<Rightarrow> string \<Rightarrow> string list \<Rightarrow> nat \<Rightarrow> (string \<times> nat) list" where
  "extractWithoutOrder sc query choices score_cutoff =
     filter (\<lambda>p. score_cutoff \<le> snd p) (map (\<lambda>c. (c, sc query c)) choices)"

fun max_by_score :: "(string \<times> nat) \<Rightarrow> (string \<times> nat) list \<Rightarrow> (string \<times> nat)" where
  "max_by_score best [] = best"
| "max_by_score best (x # xs) = max_by_score (if snd best < snd x then x else best) xs"

definition extractOne :: "scorer \<Rightarrow> string \<Rightarrow> string list \<Rightarrow> (string \<times> nat) option" where
  "extractOne sc query choices =
     (case extractWithoutOrder sc query choices 0 of
        [] \<Rightarrow> None
      | x # xs \<Rightarrow> Some (max_by_score x xs))"

section \<open>answer_agent.py\<close>

subsection \<open>Loading the database\<close>

text \<open>
  What \<open>open(qa_database_path, 'r')\<close> and reading the file give: the file is missing,
  it cannot be read, or it has a text.
\<close>

datatype file_read = FileMissing | FileUnreadable | FileText string

text \<open>
  \<open>_load_qa_database\<close>. The file system and the JSON parser are parameters:
  \<open>json_load t = None\<close> when \<open>t\<close> is not valid JSON (\<open>json.load\<close> raises). Every
  exception of the \<open>try\<close> block is caught and gives the empty database.
\<close>

definition load_qa_database ::
  "(string \<Rightarrow> file_read) \<Rightarrow> (string \<Rightarrow> qa_database option) \<Rightarrow> string \<Rightarrow> qa_database" where
  "load_qa_database fs json_load qa_database_path =
     (case fs qa_database_path of
        FileText t \<Rightarrow>
          (case json_load t of
             Some db \<Rightarrow> db
           | None \<Rightarrow> \<lparr>questions = []\<rparr>)
      | FileMissing \<Rightarrow> \<lparr>questions = []\<rparr>
      | FileUnreadable \<Rightarrow> \<lparr>questions = []\<rparr>)"

text \<open>\<open>AnswerAgent.__init__\<close>; \<open>getenv\<close> is the process environment.\<close>

definition init_agent ::
  "(string \<Rightarrow> file_read) \<Rightarrow> (string \<Rightarrow> qa_database option) \<Rightarrow> (string \<Rightarrow> string option)
     \<Rightarrow> string \<Rightarrow> answer_agent" where
  "init_agent fs json_load getenv qa_database_path =
     \<lparr>agent_database = load_qa_database fs json_load qa_database_path,
      tavily_api_key = getenv ''TAVILY_API_KEY''\<rparr>"

subsection \<open>The fuzzy matcher\<close>

text \<open>
  The loop \<open>for item in questions: if item["question"] == best_match: return item["answer"]\<close>;
  \<open>None\<close> when the loop ends without returning.
\<close>

fun lookup_answer :: "qa_entry list \<Rightarrow> string \<Rightarrow> string option" where
  "lookup_answer [] best_match = None"
| "lookup_answer (item # items) best_match =
     (if question item = best_match then Some (answer item)
      else lookup_answer items best_match)"

text \<open>
  \<open>find_best_match_in_database\<close>. The first component is what the call returns (or
  raises: unpacking \<open>None\<close> into \<open>best_match, score\<close> is a \<open>TypeError\<close>); the second
  is the list of choices for which the library was asked a similarity score, in order.
\<close>

definition find_best_match_in_database ::
  "scorer \<Rightarrow> answer_agent \<Rightarrow> string \<Rightarrow> nat \<Rightarrow> (py_error + string option) \<times> string list" where
  "find_best_match_in_database sc self query threshold =
     (if query = [] \<or> questions (agent_database self) = [] then (Inr None, [])
      else
        let qs = map question (questions (agent_database self)) in
        (case extractOne sc query qs of
           None \<Rightarrow> (Inl TypeError, qs)
         | Some (best_match, score) \<Rightarrow>
             (if threshold \<le> score
              then (Inr (lookup_answer (questions (agent_database self)) best_match), qs)
              else (Inr None, qs))))"

subsection \<open>Web search\<close>

text \<open>
  One element of \<open>search_result["results"]\<close>: a dict whose \<open>title\<close> and \<open>content\<close>
  keys may be absent (\<open>result.get(key, default)\<close>).
\<close>

record search_hit =
  title :: "string option"
  content :: "string option"

text \<open>
  What the client's \<open>search\<close> returns: a falsy value, a dict without the key
  \<open>"results"\<close>, or a dict with a results list.
\<close>

datatype search_response = EmptyResponse | NoResultsKey | Results "search_hit list"

text \<open>
  The search client: given the query and the search depth it raises an exception
  (\<open>Inl\<close>, with the exception's text) or returns a response.
\<close>

type_synonym provider = "string \<Rightarrow> string \<Rightarrow> string + search_response"

text \<open>\<open>str(i)\<close> for the counter of \<open>enumerate(..., 1)\<close>.\<close>

definition digit_char :: "nat \<Rightarrow> char" where
  "digit_char d = ''0123456789'' ! d"

fun str_nat :: "nat \<Rightarrow> string" where
  "str_nat n =
     (if n < 10 then [digit_char n] else str_nat (n div 10) @ [digit_char (n mod 10)])"

definition get_title :: "search_hit \<Rightarrow> string" where
  "get_title r = (case title r of Some t \<Rightarrow> t | None \<Rightarrow> ''No title'')"

definition get_content :: "search_hit \<Rightarrow> string" where
  "get_content r = (case content r of Some c \<Rightarrow> c | None \<Rightarrow> ''No content'')"

text \<open>
  The loop over \<open>enumerate(search_result["results"][:3], 1)\<close>: \<open>i\<close> is the counter,
  the list is what is left to visit and the last argument is \<open>formatted_response\<close>.
\<close>

fun format_results :: "nat \<Rightarrow> search_hit list \<Rightarrow> string \<Rightarrow> string" where
  "format_results i [] formatted_response = formatted_response"
| "format_results i (r # rest) formatted_response =
     format_results (Suc i) rest
       ((formatted_response @ (str_nat i @ ''. '' @ get_title r @ ''\<newline>''))
          @ (''   '' @ take 300 (get_content r) @ ''...\<newline>\<newline>''))"

text \<open>The body of the \<open>try\<close> block of \<open>search_web\<close>: it raises or returns a text.\<close>

definition search_web_try :: "provider \<Rightarrow> string \<Rightarrow> py_error + string" where
  "search_web_try tavily query =
     (case tavily query ''advanced'' of
        Inl msg \<Rightarrow> Inl (Raised msg)
      | Inr EmptyResponse \<Rightarrow>
          Inr ''I couldn't find relevant information on the web for your question.''
      | Inr NoResultsKey \<Rightarrow>
          Inr ''I couldn't find relevant information on the web for your question.''
      | Inr (Results rs) \<Rightarrow>
          Inr (format_results 1 (take 3 rs) ''Here's what I found on the web:\<newline>\<newline>''))"

text \<open>\<open>str(e)\<close> of a caught exception.\<close>

fun str_error :: "py_error \<Rightarrow> string" where
  "str_error TypeError = ''TypeError''"
| "str_error KeyError = ''KeyError''"
| "str_error (Raised msg) = msg"

text \<open>
  \<open>search_web\<close>. The first component is what the call returns or raises, the second
  the list of requests made to the provider (query and depth).
\<close>

definition search_web ::
  "provider \<Rightarrow> answer_agent \<Rightarrow> string \<Rightarrow> (py_error + string) \<times> (string \<times> string) list" where
  "search_web tavily self query =
     (if tavily_api_key self = None \<or> tavily_api_key self = Some []
      then (Inr ''Web search is not available because the Tavily API key is missing.'', [])
      else
        (case search_web_try tavily query of
           Inr text_out \<Rightarrow> (Inr text_out, [(query, ''advanced'')])
         | Inl e \<Rightarrow>
             (Inr (''Sorry, there was an error while searching the web: '' @ str_error e),
              [(query, ''advanced'')])))"

subsection \<open>The orchestrator\<close>

text \<open>
  \<open>get_answer\<close>, with the default threshold 80. \<open>if database_answer:\<close> is Python's
  truthiness test: \<open>None\<close> and the empty string both fail it. The second component is
  the list of requests made to the provider.
\<close>

definition get_answer ::
  "scorer \<Rightarrow> provider \<Rightarrow> answer_agent \<Rightarrow> string
     \<Rightarrow> (py_error + answer_result) \<times> (string \<times> string) list" where
  "get_answer sc tavily self query =
     (case fst (find_best_match_in_database sc self query 80) of
        Inl e \<Rightarrow> (Inl e, [])
      | Inr database_answer \<Rightarrow>
          (if database_answer \<noteq> None \<and> database_answer \<noteq> Some []
           then (Inr \<lparr>source = ''database'', result_answer = the database_answer\<rparr>, [])
           else
             (case search_web tavily self query of
                (Inl e, calls) \<Rightarrow> (Inl e, calls)
              | (Inr web_answer, calls) \<Rightarrow>
                  (Inr \<lparr>source = ''web'', result_answer = web_answer\<rparr>, calls))))"


declare str_nat.simps [simp del]

section \<open>audio_processing.py and speech_recognition.py: the polling loop\<close>













section \<open>Notions of the specification\<close>

text \<open>
  Section 4.1 in its own words: the similarity score of an entry, the highest score of
  the database, and the highest-scoring entry, the first one in database order.
\<close>

definition entry_score :: "scorer \<Rightarrow> string \<Rightarrow> qa_entry \<Rightarrow> nat" where
  "entry_score sc query e = sc query (question e)"

definition best_score :: "scorer \<Rightarrow> string \<Rightarrow> qa_entry list \<Rightarrow> nat" where
  "best_score sc query es = Max (set (map (entry_score sc query) es))"

definition best_entry :: "scorer \<Rightarrow> string \<Rightarrow> qa_entry list \<Rightarrow> qa_entry option" where
  "best_entry sc query es = find (\<lambda>e. entry_score sc query e = best_score sc query es) es"

text \<open>
  Section 4.2 in its own words: result number \<open>i\<close> as a numbered title and an excerpt of
  at most 300 characters followed by an ellipsis.
\<close>

definition result_block :: "nat \<Rightarrow> search_hit \<Rightarrow> string" where
  "result_block i r =
     str_nat i @ ''. '' @ get_title r @ ''\<newline>'' @ ''   '' @ take 300 (get_content r)
       @ ''...'' @ ''\<newline>\<newline>''"




section \<open>Example inputs\<close>

text \<open>Scorers for the examples: equality only, and a table of scores by choice.\<close>

definition exact_scorer :: scorer where
  "exact_scorer query choice = (if query = choice then 100 else 0)"

definition table_scorer :: "(string \<times> nat) list \<Rightarrow> scorer" where
  "table_scorer tbl query choice = (case map_of tbl choice of Some s \<Rightarrow> s | None \<Rightarrow> 0)"

definition agent_of :: "qa_entry list \<Rightarrow> string option \<Rightarrow> answer_agent" where
  "agent_of es key = \<lparr>agent_database = \<lparr>questions = es\<rparr>, tavily_api_key = key\<rparr>"

definition faq_entries :: "qa_entry list" where
  "faq_entries =
     [\<lparr>question = ''What is a voice assistant?'', answer = ''A voice assistant is...''\<rparr>]"

definition tied_entries :: "qa_entry list" where
  "tied_entries =
     [\<lparr>question = ''A?'', answer = ''a''\<rparr>, \<lparr>question = ''B?'', answer = ''b1''\<rparr>,
      \<lparr>question = ''B?'', answer = ''b2''\<rparr>, \<lparr>question = ''C?'', answer = ''c''\<rparr>]"

definition duplicate_entries :: "qa_entry list" where
  "duplicate_entries =
     [\<lparr>question = ''Q'', answer = ''A1''\<rparr>, \<lparr>question = ''Q'', answer = ''A2''\<rparr>]"

definition blank_entries :: "qa_entry list" where
  "blank_entries = [\<lparr>question = ''Q'', answer = []\<rparr>]"

definition hit :: "string \<Rightarrow> string \<Rightarrow> search_hit" where
  "hit t c = \<lparr>title = Some t, content = Some c\<rparr>"

definition five_results :: provider where
  "five_results query depth =
     Inr (Results [hit ''T1'' (replicate 400 CHR ''x''), hit ''T2'' ''short'',
                   \<lparr>title = None, content = None\<rparr>, hit ''T4'' ''d'', hit ''T5'' ''e''])"

definition failing_provider :: provider where
  "failing_provider query depth = Inl ''timeout''"

text \<open>
  A scorer that reads strings as the library's default processor does: a character
  that is not a letter, a digit or an underscore counts as a blank, case is ignored and
  the blanks at both ends are dropped. A string that is left empty scores 0 against
  everything, and two strings that are left equal score 100; every other pair scores 0
  here.
\<close>

definition alnum :: "char \<Rightarrow> bool" where
  "alnum c =
     (c \<in> set (''abcdefghijklmnopqrstuvwxyz'' @ ''ABCDEFGHIJKLMNOPQRSTUVWXYZ''
                @ ''0123456789_''))"

definition lower_char :: "char \<Rightarrow> char" where
  "lower_char c =
     (case map_of (zip ''ABCDEFGHIJKLMNOPQRSTUVWXYZ'' ''abcdefghijklmnopqrstuvwxyz'') c of
        Some l \<Rightarrow> l
      | None \<Rightarrow> c)"

definition strip :: "string \<Rightarrow> string" where
  "strip s = rev (dropWhile (\<lambda>c. c = CHR '' '') (rev (dropWhile (\<lambda>c. c = CHR '' '') s)))"

definition full_process :: "string \<Rightarrow> string" where
  "full_process s = strip (map (\<lambda>c. if alnum c then lower_char c else CHR '' '') s)"

definition processed_scorer :: scorer where
  "processed_scorer query choice =
     (if full_process query = [] \<or> full_process choice = [] then 0
      else if full_process query = full_process choice then 100
      else 0)"

definition punctuation_entries :: "qa_entry list" where
  "punctuation_entries = [\<lparr>question = ''!!!'', answer = ''A''\<rparr>]"

definition case_entries :: "qa_entry list" where
  "case_entries =
     [\<lparr>question = ''faq'', answer = ''A1''\<rparr>, \<lparr>question = ''FAQ'', answer = ''A2''\<rparr>]"








section \<open>The matcher\<close>

lemma extractWithoutOrder_zero:
  "extractWithoutOrder sc q cs 0 = map (\<lambda>c. (c, sc q c)) cs"
  by (simp add: extractWithoutOrder_def)

lemma max_by_score_first:
  "find (\<lambda>p. snd p = snd (max_by_score b xs)) (b # xs) = Some (max_by_score b xs)
   \<and> (\<forall>p\<in>set (b # xs). snd p \<le> snd (max_by_score b xs))"
proof (induction xs arbitrary: b)
  case Nil
  show ?case by simp
next
  case (Cons x xs)
  define r where "r = max_by_score (if snd b < snd x then x else b) xs"
  have r: "max_by_score b (x # xs) = r" by (simp add: r_def)
  show ?case
  proof (cases "snd b < snd x")
    case True
    with Cons.IH[of x] have f: "find (\<lambda>p. snd p = snd r) (x # xs) = Some r"
      and le: "\<forall>p\<in>set (x # xs). snd p \<le> snd r" by (simp_all add: r_def)
    from le have "snd x \<le> snd r" by simp
    with True have "snd b \<noteq> snd r" "snd b \<le> snd r" by auto
    with f le show ?thesis unfolding r by simp
  next
    case False
    with Cons.IH[of b] have f: "find (\<lambda>p. snd p = snd r) (b # xs) = Some r"
      and le: "\<forall>p\<in>set (b # xs). snd p \<le> snd r" by (simp_all add: r_def)
    show ?thesis
    proof (cases "snd b = snd r")
      case True
      with f False le show ?thesis unfolding r by auto
    next
      case F2: False
      from le have "snd b \<le> snd r" by simp
      with F2 have "snd b < snd r" by simp
      with False have "snd x \<noteq> snd r" "snd x \<le> snd r" by auto
      with f F2 le show ?thesis unfolding r by auto
    qed
  qed
qed

lemma find_map_comp: "find P (map f xs) = map_option f (find (\<lambda>x. P (f x)) xs)"
  by (induction xs) simp_all

lemma find_refine:
  "find P xs = Some e \<Longrightarrow> (\<And>x. Q x \<Longrightarrow> P x) \<Longrightarrow> Q e \<Longrightarrow> find Q xs = Some e"
  by (induction xs) (auto split: if_splits)

lemma lookup_answer_find:
  "lookup_answer es bm = map_option answer (find (\<lambda>e. question e = bm) es)"
  by (induction es) simp_all

lemma extractOne_best_entry:
  assumes "es \<noteq> []"
  shows "\<exists>e. best_entry sc q es = Some e
           \<and> entry_score sc q e = best_score sc q es
           \<and> extractOne sc q (map question es) = Some (question e, best_score sc q es)
           \<and> lookup_answer es (question e) = Some (answer e)"
proof -
  from assms obtain e0 es' where es: "es = e0 # es'" by (cases es) auto
  define f where "f = (\<lambda>e. (question e, entry_score sc q e))"
  define r where "r = max_by_score (f e0) (map f es')"
  have pairs: "map (\<lambda>c. (c, sc q c)) (map question es) = map f es"
    by (simp add: f_def entry_score_def)
  have ex: "extractOne sc q (map question es) = Some r"
    unfolding extractOne_def extractWithoutOrder_zero pairs
    by (simp add: es r_def)
  from max_by_score_first[of "f e0" "map f es'"]
  have fnd: "find (\<lambda>p. snd p = snd r) (map f es) = Some r"
    and le: "\<forall>p\<in>set (map f es). snd p \<le> snd r"
    by (simp_all add: es r_def)
  from fnd obtain e where e: "find (\<lambda>e. snd (f e) = snd r) es = Some e" and fe: "f e = r"
    by (auto simp: find_map_comp)
  have sc_e: "entry_score sc q e = snd r" using fe by (auto simp: f_def)
  have mem: "e \<in> set es" using e by (auto simp: find_Some_iff)
  have "Max (set (map (entry_score sc q) es)) = snd r"
  proof (rule Max_eqI)
    show "finite (set (map (entry_score sc q) es))" by simp
    show "\<And>y. y \<in> set (map (entry_score sc q) es) \<Longrightarrow> y \<le> snd r"
      using le by (auto simp: f_def)
    show "snd r \<in> set (map (entry_score sc q) es)"
      using mem sc_e by force
  qed
  then have bs: "best_score sc q es = snd r" by (simp add: best_score_def)
  have be: "best_entry sc q es = Some e"
    using e by (simp add: best_entry_def bs f_def)
  have "find (\<lambda>x. question x = question e) es = Some e"
  proof (rule find_refine[where P = "\<lambda>e. snd (f e) = snd r"])
    show "find (\<lambda>e. snd (f e) = snd r) es = Some e" by (rule e)
    show "\<And>x. question x = question e \<Longrightarrow> snd (f x) = snd r"
      using sc_e by (simp add: f_def entry_score_def)
    show "question e = question e" by simp
  qed
  then have la: "lookup_answer es (question e) = Some (answer e)"
    by (simp add: lookup_answer_find)
  have eq: "entry_score sc q e = best_score sc q es"
    by (simp only: sc_e bs)
  have r_eq: "r = (question e, entry_score sc q e)"
    using fe by (simp add: f_def)
  have ex': "extractOne sc q (map question es) = Some (question e, best_score sc q es)"
    by (simp only: ex r_eq eq)
  from be eq ex' la show ?thesis by blast
qed

lemma find_best_match_value:
  assumes "query \<noteq> []" and "questions (agent_database self) \<noteq> []"
  shows "\<exists>e. best_entry sc query (questions (agent_database self)) = Some e
    \<and> entry_score sc query e = best_score sc query (questions (agent_database self))
    \<and> find_best_match_in_database sc self query threshold =
       (Inr (if threshold \<le> best_score sc query (questions (agent_database self))
             then Some (answer e) else None),
        map question (questions (agent_database self)))"
proof -
  from extractOne_best_entry[OF assms(2), of sc query]
  obtain e where be: "best_entry sc query (questions (agent_database self)) = Some e"
    and eq: "entry_score sc query e = best_score sc query (questions (agent_database self))"
    and ex: "extractOne sc query (map question (questions (agent_database self)))
           = Some (question e, best_score sc query (questions (agent_database self)))"
    and la: "lookup_answer (questions (agent_database self)) (question e) = Some (answer e)"
    by blast
  have "find_best_match_in_database sc self query threshold =
       (Inr (if threshold \<le> best_score sc query (questions (agent_database self))
             then Some (answer e) else None),
        map question (questions (agent_database self)))"
    using assms by (simp add: find_best_match_in_database_def Let_def ex la)
  with be eq show ?thesis by blast
qed

lemma find_best_match_no_raise:
  "\<exists>a. fst (find_best_match_in_database sc self query threshold) = Inr a"
proof (cases "query = [] \<or> questions (agent_database self) = []")
  case True
  then show ?thesis by (auto simp: find_best_match_in_database_def)
next
  case False
  then have "query \<noteq> []" "questions (agent_database self) \<noteq> []" by auto
  from find_best_match_value[OF this, of sc threshold]
  show ?thesis by (elim exE conjE) simp
qed

lemma best_score_ge:
  "e \<in> set es \<Longrightarrow> entry_score sc q e \<le> best_score sc q es"
  by (simp add: best_score_def)

section \<open>Search\<close>

lemma search_web_no_raise: "\<exists>s. fst (search_web tavily self query) = Inr s"
  by (simp add: search_web_def split: sum.split)

lemma format_results_enumerate:
  "format_results i rs acc =
     acc @ concat (map (\<lambda>(k, r). result_block k r) (enumerate i rs))"
  by (induction rs arbitrary: i acc) (simp_all add: result_block_def)

lemma get_answer_cases:
  assumes "fst (find_best_match_in_database sc self query 80) = Inr a"
    and "search_web tavily self query = (Inr s, calls)"
  shows "get_answer sc tavily self query =
     (if a \<noteq> None \<and> a \<noteq> Some []
      then (Inr \<lparr>source = ''database'', result_answer = the a\<rparr>, [])
      else (Inr \<lparr>source = ''web'', result_answer = s\<rparr>, calls))"
  using assms by (simp add: get_answer_def)

lemma search_web_pair:
  "\<exists>s calls. search_web tavily self query = (Inr s, calls)"
  using search_web_no_raise[of tavily self query]
  by (cases "search_web tavily self query") auto

section \<open>Polling\<close>

















section \<open>Claims\<close>

text \<open>
  Claim C5. When the query is empty or the question list of the database is empty,
  \<open>find_best_match_in_database\<close> returns \<open>None\<close> (it does not raise) and no
  similarity score is computed: the list of scored choices is empty.
\<close>

theorem find_best_match_empty:
  assumes "query = [] \<or> questions (agent_database self) = []"
  shows "find_best_match_in_database sc self query threshold = (Inr None, [])"
proof -
  from assms have "(if query = [] \<or> questions (agent_database self) = [] then x else y) = x"
    for x y :: "(py_error + string option) \<times> string list"
    by (rule if_P)
  then show ?thesis
    unfolding find_best_match_in_database_def .
qed

text \<open>
  The empty query against a database with one entry, and a query against the empty
  database.
\<close>

theorem find_best_match_empty_witness:
  "find_best_match_in_database exact_scorer (agent_of faq_entries None) [] 80 = (Inr None, [])
   \<and> questions (agent_database (agent_of [] None)) = []
   \<and> find_best_match_in_database exact_scorer (agent_of [] None) ''hello'' 80 = (Inr None, [])"
  using find_best_match_empty[of "[]" "agent_of faq_entries None" exact_scorer 80]
    find_best_match_empty[of "''hello''" "agent_of [] None" exact_scorer 80]
  by (simp add: agent_of_def)

text \<open>
  Claim C2. For a non-empty query and a non-empty database, with the default threshold
  80, the call returns the stored answer of the best-matching entry (the first entry of
  highest score) when the best score is at least 80 and \<open>None\<close> when it is below; a
  best score of exactly 80 is a match and a best score of 79 is not.
\<close>

theorem threshold_match:
  assumes "query \<noteq> []" and "questions (agent_database self) \<noteq> []"
  shows "\<exists>e. best_entry sc query (questions (agent_database self)) = Some e
    \<and> fst (find_best_match_in_database sc self query 80) =
         Inr (if 80 \<le> best_score sc query (questions (agent_database self))
              then Some (answer e) else None)
    \<and> (best_score sc query (questions (agent_database self)) = 80 \<longrightarrow>
         fst (find_best_match_in_database sc self query 80) = Inr (Some (answer e)))
    \<and> (best_score sc query (questions (agent_database self)) = 79 \<longrightarrow>
         fst (find_best_match_in_database sc self query 80) = Inr None)"
proof -
  from find_best_match_value[OF assms, of sc 80]
  obtain e where be: "best_entry sc query (questions (agent_database self)) = Some e"
    and v: "find_best_match_in_database sc self query 80 =
       (Inr (if 80 \<le> best_score sc query (questions (agent_database self))
             then Some (answer e) else None),
        map question (questions (agent_database self)))"
    by (elim exE conjE)
  from v have "fst (find_best_match_in_database sc self query 80) =
         Inr (if 80 \<le> best_score sc query (questions (agent_database self))
              then Some (answer e) else None)" by simp
  with be show ?thesis by auto
qed

text \<open>
  Both sides of the boundary: a best score of 80 returns the answer, a best score of 79
  returns \<open>None\<close>.
\<close>

theorem threshold_match_witness:
  "''q'' \<noteq> [] \<and> questions (agent_database (agent_of tied_entries None)) \<noteq> []
   \<and> best_score (table_scorer [(''A?'', 79), (''B?'', 80)]) ''q'' tied_entries = 80
   \<and> fst (find_best_match_in_database (table_scorer [(''A?'', 79), (''B?'', 80)])
        (agent_of tied_entries None) ''q'' 80) = Inr (Some ''b1'')
   \<and> best_score (table_scorer [(''A?'', 79), (''B?'', 50)]) ''q'' tied_entries = 79
   \<and> fst (find_best_match_in_database (table_scorer [(''A?'', 79), (''B?'', 50)])
        (agent_of tied_entries None) ''q'' 80) = Inr None"
  using threshold_match[of "''q''" "agent_of tied_entries None" "table_scorer [(''A?'', 79), (''B?'', 80)]"]
    threshold_match[of "''q''" "agent_of tied_entries None" "table_scorer [(''A?'', 79), (''B?'', 50)]"]
  by (simp add: agent_of_def tied_entries_def best_score_def best_entry_def entry_score_def
      table_scorer_def)

text \<open>
  Claim C8. When several stored questions tie for the highest score, the best match is
  the first maximum in database order: some index \<open>i\<close> carries the highest score,
  every earlier entry scores strictly less and has another question text, and the answer
  returned (when the threshold is met) is the answer of entry \<open>i\<close>, the earliest
  entry whose question equals the best-match string.
\<close>

theorem first_maximum_wins:
  assumes "query \<noteq> []" and "questions (agent_database self) = es" and "es \<noteq> []"
  shows "\<exists>i<length es.
      extractOne sc query (map question es) = Some (question (es ! i), sc query (question (es ! i)))
    \<and> (\<forall>j<length es. sc query (question (es ! j)) \<le> sc query (question (es ! i)))
    \<and> (\<forall>j<i. sc query (question (es ! j)) < sc query (question (es ! i)))
    \<and> (\<forall>j<i. question (es ! j) \<noteq> question (es ! i))
    \<and> fst (find_best_match_in_database sc self query threshold) =
         Inr (if threshold \<le> sc query (question (es ! i)) then Some (answer (es ! i)) else None)"
proof -
  from assms have ne: "questions (agent_database self) \<noteq> []" by simp
  from find_best_match_value[OF assms(1) ne, of sc threshold] assms(2)
  obtain e where be: "best_entry sc query es = Some e"
    and eq: "entry_score sc query e = best_score sc query es"
    and v: "find_best_match_in_database sc self query threshold =
       (Inr (if threshold \<le> best_score sc query es then Some (answer e) else None),
        map question es)"
    by (elim exE conjE) simp
  from extractOne_best_entry[OF assms(3), of sc query] be
  have ex: "extractOne sc query (map question es) = Some (question e, best_score sc query es)"
    by auto
  from be obtain i where i: "i < length es" and ei: "e = es ! i"
    and first: "\<forall>j<i. entry_score sc query (es ! j) \<noteq> best_score sc query es"
    by (auto simp: best_entry_def find_Some_iff)
  have le: "entry_score sc query (es ! j) \<le> best_score sc query es" if "j < length es" for j
    using that by (intro best_score_ge) simp
  have lt: "entry_score sc query (es ! j) < best_score sc query es" if "j < i" for j
  proof -
    from that i have "j < length es" by simp
    from le[OF this] first that show ?thesis by (simp add: le_neq_implies_less)
  qed
  have neq: "question (es ! j) \<noteq> question (es ! i)" if "j < i" for j
  proof
    assume "question (es ! j) = question (es ! i)"
    then have "entry_score sc query (es ! j) = entry_score sc query (es ! i)"
      by (simp add: entry_score_def)
    with lt[OF that] eq ei show False by simp
  qed
  have bs: "best_score sc query es = sc query (question (es ! i))"
    using eq ei by (simp add: entry_score_def)
  show ?thesis
  proof (intro exI[of _ i] conjI)
    show "i < length es" by (rule i)
    show "extractOne sc query (map question es)
            = Some (question (es ! i), sc query (question (es ! i)))"
      using ex ei bs by simp
    show "\<forall>j<length es. sc query (question (es ! j)) \<le> sc query (question (es ! i))"
      using le bs by (simp add: entry_score_def)
    show "\<forall>j<i. sc query (question (es ! j)) < sc query (question (es ! i))"
      using lt bs by (simp add: entry_score_def)
    show "\<forall>j<i. question (es ! j) \<noteq> question (es ! i)"
      using neq by simp
    show "fst (find_best_match_in_database sc self query threshold) =
         Inr (if threshold \<le> sc query (question (es ! i)) then Some (answer (es ! i)) else None)"
      using v ei bs by simp
  qed
qed

text \<open>
  Three entries tie at 90; the answer is that of the first of them.
\<close>

theorem first_maximum_wins_witness:
  "''q'' \<noteq> [] \<and> questions (agent_database (agent_of tied_entries None)) = tied_entries
   \<and> tied_entries \<noteq> []
   \<and> map (table_scorer [(''A?'', 50), (''B?'', 90), (''C?'', 90)] ''q'' \<circ> question) tied_entries
       = [50, 90, 90, 90]
   \<and> extractOne (table_scorer [(''A?'', 50), (''B?'', 90), (''C?'', 90)]) ''q''
       (map question tied_entries) = Some (''B?'', 90)
   \<and> fst (find_best_match_in_database (table_scorer [(''A?'', 50), (''B?'', 90), (''C?'', 90)])
        (agent_of tied_entries None) ''q'' 80) = Inr (Some ''b1'')"
  using first_maximum_wins[of "''q''" "agent_of tied_entries None" tied_entries
      "table_scorer [(''A?'', 50), (''B?'', 90), (''C?'', 90)]" 80]
  by (simp add: agent_of_def tied_entries_def table_scorer_def find_best_match_in_database_def
      extractOne_def extractWithoutOrder_def)


text \<open>
  Claim C1, amended. For every query \<open>get_answer\<close> returns one result (it does not
  raise) whose source is \<open>"database"\<close> or \<open>"web"\<close> and not both. When
  \<open>find_best_match_in_database\<close> yields a non-empty answer, the source is
  \<open>"database"\<close>, the answer is that text and the provider is not contacted; otherwise
  (no match, or a stored answer that is the empty string) the source is \<open>"web"\<close> and
  the answer is the value of \<open>search_web(query)\<close>.
\<close>

theorem get_answer_source:
  "\<exists>r. fst (get_answer sc tavily self query) = Inr r
     \<and> (if \<exists>a. fst (find_best_match_in_database sc self query 80) = Inr (Some a) \<and> a \<noteq> []
        then source r = ''database''
           \<and> fst (find_best_match_in_database sc self query 80) = Inr (Some (result_answer r))
           \<and> snd (get_answer sc tavily self query) = []
        else source r = ''web''
           \<and> fst (search_web tavily self query) = Inr (result_answer r)
           \<and> snd (get_answer sc tavily self query) = snd (search_web tavily self query))
     \<and> (source r = ''database'') \<noteq> (source r = ''web'')"
proof -
  obtain a where a: "fst (find_best_match_in_database sc self query 80) = Inr a"
    using find_best_match_no_raise by blast
  obtain s calls where s: "search_web tavily self query = (Inr s, calls)"
    using search_web_pair by blast
  note ga = get_answer_cases[OF a s]
  show ?thesis
  proof (cases "a \<noteq> None \<and> a \<noteq> Some []")
    case True
    then obtain t where t: "a = Some t" "t \<noteq> []" by auto
    have "fst (get_answer sc tavily self query) = Inr \<lparr>source = ''database'', result_answer = t\<rparr>"
      and "snd (get_answer sc tavily self query) = []"
      using ga t by simp_all
    with a t show ?thesis by simp
  next
    case False
    then have na: "a = None \<or> a = Some []" by auto
    have "fst (get_answer sc tavily self query) = Inr \<lparr>source = ''web'', result_answer = s\<rparr>"
      and "snd (get_answer sc tavily self query) = calls"
      using ga na by auto
    moreover from na a
    have "\<not> (\<exists>a. fst (find_best_match_in_database sc self query 80) = Inr (Some a) \<and> a \<noteq> [])"
      by auto
    ultimately show ?thesis using s by simp
  qed
qed

text \<open>
  A query found in the database, and one that goes to the web search.
\<close>

theorem get_answer_source_witness:
  "get_answer exact_scorer five_results (agent_of faq_entries (Some ''k''))
      ''What is a voice assistant?''
     = (Inr \<lparr>source = ''database'', result_answer = ''A voice assistant is...''\<rparr>, [])
   \<and> get_answer exact_scorer failing_provider (agent_of faq_entries (Some ''k''))
      ''What is the weather like today?''
     = (Inr \<lparr>source = ''web'',
             result_answer = ''Sorry, there was an error while searching the web: timeout''\<rparr>,
        [(''What is the weather like today?'', ''advanced'')])"
  using get_answer_source[of exact_scorer five_results "agent_of faq_entries (Some ''k'')"
      "''What is a voice assistant?''"]
    get_answer_source[of exact_scorer failing_provider "agent_of faq_entries (Some ''k'')"
      "''What is the weather like today?''"]
  by (simp add: get_answer_def find_best_match_in_database_def extractOne_def
      extractWithoutOrder_def exact_scorer_def agent_of_def faq_entries_def search_web_def
      search_web_try_def failing_provider_def)

text \<open>
  Claim C1 as stated fails: the matcher yields the stored answer of the matching entry,
  the empty string, and the result is tagged \<open>"web"\<close>.
\<close>

theorem get_answer_source_counterexample:
  "answer (blank_entries ! 0) = []
   \<and> fst (find_best_match_in_database exact_scorer (agent_of blank_entries None) ''Q'' 80)
       = Inr (Some (answer (blank_entries ! 0)))
   \<and> fst (get_answer exact_scorer five_results (agent_of blank_entries None) ''Q'')
       \<noteq> Inr \<lparr>source = ''database'', result_answer = answer (blank_entries ! 0)\<rparr>
   \<and> map_sum id source
        (fst (get_answer exact_scorer five_results (agent_of blank_entries None) ''Q''))
       = Inr ''web''"
  by (simp add: get_answer_def find_best_match_in_database_def extractOne_def
      extractWithoutOrder_def exact_scorer_def agent_of_def blank_entries_def search_web_def)

text \<open>
  Claim C3. \<open>search_web\<close> never raises. With the API key missing (\<open>None\<close> or
  empty) it returns the fixed message and makes no request to the provider; when the
  provider call raises, it returns the error message text.
\<close>

theorem search_web_degrades:
  "(\<exists>s. fst (search_web tavily self query) = Inr s)
   \<and> (tavily_api_key self = None \<or> tavily_api_key self = Some [] \<longrightarrow>
        search_web tavily self query =
          (Inr ''Web search is not available because the Tavily API key is missing.'', []))
   \<and> (tavily_api_key self \<noteq> None \<and> tavily_api_key self \<noteq> Some []
        \<and> tavily query ''advanced'' = Inl msg \<longrightarrow>
        fst (search_web tavily self query) =
          Inr (''Sorry, there was an error while searching the web: '' @ msg))"
proof (intro conjI impI)
  show "\<exists>s. fst (search_web tavily self query) = Inr s"
    by (rule search_web_no_raise)
next
  assume "tavily_api_key self = None \<or> tavily_api_key self = Some []"
  then show "search_web tavily self query =
          (Inr ''Web search is not available because the Tavily API key is missing.'', [])"
    by (auto simp: search_web_def)
next
  assume "tavily_api_key self \<noteq> None \<and> tavily_api_key self \<noteq> Some []
        \<and> tavily query ''advanced'' = Inl msg"
  then show "fst (search_web tavily self query) =
          Inr (''Sorry, there was an error while searching the web: '' @ msg)"
    by (auto simp: search_web_def search_web_try_def)
qed

text \<open>
  No key, an empty key, and a provider that raises.
\<close>

theorem search_web_degrades_witness:
  "search_web five_results (agent_of [] None) ''q'' =
      (Inr ''Web search is not available because the Tavily API key is missing.'', [])
   \<and> search_web five_results (agent_of [] (Some [])) ''q'' =
      (Inr ''Web search is not available because the Tavily API key is missing.'', [])
   \<and> fst (search_web failing_provider (agent_of [] (Some ''k'')) ''q'') =
      Inr ''Sorry, there was an error while searching the web: timeout''"
  using search_web_degrades[of five_results "agent_of [] None" "''q''"]
    search_web_degrades[of five_results "agent_of [] (Some [])" "''q''"]
    search_web_degrades[of failing_provider "agent_of [] (Some ''k'')" "''q''" "''timeout''"]
  by (simp add: agent_of_def failing_provider_def)

text \<open>
  Claim C4. For a provider response with a results list, the text returned is the
  header followed by one block for each of the first three results and no other: the
  blocks are numbered from 1, in order, and each is the title line followed by the first
  300 characters at most of the content and an ellipsis.
\<close>

theorem search_web_first_three:
  assumes "tavily_api_key self = Some key" and "key \<noteq> []"
    and "tavily query ''advanced'' = Inr (Results rs)"
  shows "fst (search_web tavily self query) =
           Inr (''Here's what I found on the web:\<newline>\<newline>''
                @ concat (map (\<lambda>(i, r). result_block i r) (enumerate 1 (take 3 rs))))
    \<and> map fst (enumerate 1 (take 3 rs)) = [1..<1 + min 3 (length rs)]
    \<and> map snd (enumerate 1 (take 3 rs)) = take 3 rs
    \<and> (\<forall>r\<in>set (take 3 rs). length (take 300 (get_content r)) \<le> 300)"
proof (intro conjI)
  from assms show "fst (search_web tavily self query) =
           Inr (''Here's what I found on the web:\<newline>\<newline>''
                @ concat (map (\<lambda>(i, r). result_block i r) (enumerate 1 (take 3 rs))))"
    by (simp add: search_web_def search_web_try_def format_results_enumerate)
  show "map fst (enumerate 1 (take 3 rs)) = [1..<1 + min 3 (length rs)]"
    by (simp add: min.commute)
  show "map snd (enumerate 1 (take 3 rs)) = take 3 rs"
    by simp
  show "\<forall>r\<in>set (take 3 rs). length (take 300 (get_content r)) \<le> 300"
    by simp
qed

text \<open>
  Five results, the first with a content of 400 characters: three blocks, the first
  excerpt cut to 300 characters.
\<close>

theorem search_web_first_three_witness:
  "tavily_api_key (agent_of [] (Some ''k'')) = Some ''k'' \<and> ''k'' \<noteq> []
   \<and> fst (search_web five_results (agent_of [] (Some ''k'')) ''q'') =
       Inr (''Here's what I found on the web:\<newline>\<newline>''
            @ ''1. T1\<newline>   '' @ replicate 300 CHR ''x'' @ ''...\<newline>\<newline>''
            @ ''2. T2\<newline>   short...\<newline>\<newline>''
            @ ''3. No title\<newline>   No content...\<newline>\<newline>'')"
  using search_web_first_three[of "agent_of [] (Some ''k'')" "''k''" five_results "''q''"
      "[hit ''T1'' (replicate 400 CHR ''x''), hit ''T2'' ''short'',
        \<lparr>title = None, content = None\<rparr>, hit ''T4'' ''d'', hit ''T5'' ''e'']"]
  by (simp add: agent_of_def five_results_def result_block_def hit_def get_title_def
      get_content_def str_nat.simps digit_char_def enumerate_eq_zip)

text \<open>
  Claim C9. When the database file is missing, unreadable or not valid JSON,
  \<open>_load_qa_database\<close> returns \<open>{"questions": []}\<close>; the agent is built, and every
  query then finds no match and is answered by the web search.
\<close>

theorem load_failure_empty_database:
  assumes "fs path = FileMissing \<or> fs path = FileUnreadable
           \<or> (\<exists>t. fs path = FileText t \<and> json_load t = None)"
  shows "load_qa_database fs json_load path = \<lparr>questions = []\<rparr>
    \<and> agent_database (init_agent fs json_load getenv path) = \<lparr>questions = []\<rparr>
    \<and> find_best_match_in_database sc (init_agent fs json_load getenv path) query 80
         = (Inr None, [])
    \<and> (\<exists>r. fst (get_answer sc tavily (init_agent fs json_load getenv path) query) = Inr r
           \<and> source r = ''web''
           \<and> fst (search_web tavily (init_agent fs json_load getenv path) query)
               = Inr (result_answer r))"
proof -
  let ?ag = "init_agent fs json_load getenv path"
  from assms have l: "load_qa_database fs json_load path = \<lparr>questions = []\<rparr>"
    by (auto simp: load_qa_database_def)
  then have db: "agent_database ?ag = \<lparr>questions = []\<rparr>"
    by (simp add: init_agent_def)
  then have fb: "find_best_match_in_database sc ?ag query 80 = (Inr None, [])"
    by (simp add: find_best_match_in_database_def)
  obtain s calls where s: "search_web tavily ?ag query = (Inr s, calls)"
    using search_web_pair by blast
  from fb have "fst (find_best_match_in_database sc ?ag query 80) = Inr None" by simp
  from get_answer_cases[OF this s]
  have "fst (get_answer sc tavily ?ag query) = Inr \<lparr>source = ''web'', result_answer = s\<rparr>"
    by simp
  with s have "\<exists>r. fst (get_answer sc tavily ?ag query) = Inr r \<and> source r = ''web''
           \<and> fst (search_web tavily ?ag query) = Inr (result_answer r)"
    by simp
  with l db fb show ?thesis by blast
qed

text \<open>
  The three failures of loading, and a query on the agent built from a missing file.
\<close>

theorem load_failure_empty_database_witness:
  "load_qa_database (\<lambda>p. FileMissing) (\<lambda>t. None) ''qa_database.json'' = \<lparr>questions = []\<rparr>
   \<and> load_qa_database (\<lambda>p. FileUnreadable) (\<lambda>t. None) ''qa_database.json'' = \<lparr>questions = []\<rparr>
   \<and> load_qa_database (\<lambda>p. FileText ''{not json'') (\<lambda>t. None) ''qa_database.json''
       = \<lparr>questions = []\<rparr>
   \<and> fst (get_answer exact_scorer failing_provider
        (init_agent (\<lambda>p. FileMissing) (\<lambda>t. None) (\<lambda>v. Some ''k'') ''qa_database.json'') ''Q'')
       = Inr \<lparr>source = ''web'',
              result_answer = ''Sorry, there was an error while searching the web: timeout''\<rparr>"
  using load_failure_empty_database[of "\<lambda>p. FileMissing" "''qa_database.json''" "\<lambda>t. None"
      "\<lambda>v. Some ''k''" exact_scorer "''Q''" failing_provider]
    load_failure_empty_database[of "\<lambda>p. FileUnreadable" "''qa_database.json''" "\<lambda>t. None"
      "\<lambda>v. Some ''k''" exact_scorer "''Q''" failing_provider]
    load_failure_empty_database[of "\<lambda>p. FileText ''{not json''" "''qa_database.json''" "\<lambda>t. None"
      "\<lambda>v. Some ''k''" exact_scorer "''Q''" failing_provider]
  by (simp add: init_agent_def load_qa_database_def get_answer_def
      find_best_match_in_database_def search_web_def search_web_try_def failing_provider_def)

text \<open>
  Claim C10. A result of source \<open>"database"\<close> has a non-empty answer; when the
  matcher returns the empty string (a stored answer that is empty, its score meeting
  the threshold), the result is the web search's.
\<close>

theorem database_answer_nonempty:
  "(\<forall>r. fst (get_answer sc tavily self query) = Inr r \<and> source r = ''database''
        \<longrightarrow> result_answer r \<noteq> [])
   \<and> (fst (find_best_match_in_database sc self query 80) = Inr (Some []) \<longrightarrow>
        (\<exists>r. fst (get_answer sc tavily self query) = Inr r \<and> source r = ''web''
             \<and> fst (search_web tavily self query) = Inr (result_answer r)))"
proof -
  obtain a where a: "fst (find_best_match_in_database sc self query 80) = Inr a"
    using find_best_match_no_raise by blast
  obtain s calls where s: "search_web tavily self query = (Inr s, calls)"
    using search_web_pair by blast
  note ga = get_answer_cases[OF a s]
  have first: "\<forall>r. fst (get_answer sc tavily self query) = Inr r \<and> source r = ''database''
        \<longrightarrow> result_answer r \<noteq> []"
  proof (cases "a \<noteq> None \<and> a \<noteq> Some []")
    case True
    then obtain t where "a = Some t" "t \<noteq> []" by auto
    with ga show ?thesis by auto
  next
    case False
    with ga show ?thesis by auto
  qed
  have second: "fst (find_best_match_in_database sc self query 80) = Inr (Some []) \<longrightarrow>
        (\<exists>r. fst (get_answer sc tavily self query) = Inr r \<and> source r = ''web''
             \<and> fst (search_web tavily self query) = Inr (result_answer r))"
  proof
    assume "fst (find_best_match_in_database sc self query 80) = Inr (Some [])"
    with a have "a = Some []" by simp
    with ga s show "\<exists>r. fst (get_answer sc tavily self query) = Inr r \<and> source r = ''web''
             \<and> fst (search_web tavily self query) = Inr (result_answer r)"
      by simp
  qed
  from first second show ?thesis by blast
qed

text \<open>
  An entry with an empty answer matched with score 100 goes to the web search; an
  entry with a text is answered from the database.
\<close>

theorem database_answer_nonempty_witness:
  "extractOne exact_scorer ''Q'' (map question blank_entries) = Some (''Q'', 100)
   \<and> fst (find_best_match_in_database exact_scorer (agent_of blank_entries None) ''Q'' 80)
       = Inr (Some [])
   \<and> fst (get_answer exact_scorer five_results (agent_of blank_entries None) ''Q'')
       = Inr \<lparr>source = ''web'',
              result_answer = ''Web search is not available because the Tavily API key is missing.''\<rparr>
   \<and> fst (get_answer exact_scorer five_results (agent_of faq_entries None)
        ''What is a voice assistant?'')
       = Inr \<lparr>source = ''database'', result_answer = ''A voice assistant is...''\<rparr>
   \<and> ''A voice assistant is...'' \<noteq> []"
  using database_answer_nonempty[of exact_scorer five_results "agent_of blank_entries None" "''Q''"]
    database_answer_nonempty[of exact_scorer five_results "agent_of faq_entries None"
      "''What is a voice assistant?''"]
  by (simp add: get_answer_def find_best_match_in_database_def extractOne_def
      extractWithoutOrder_def exact_scorer_def agent_of_def faq_entries_def blank_entries_def
      search_web_def)



text \<open>
  Claim C6, amended. Let a non-empty query equal the question of a stored entry, and let
  the scorer give 100 for the query against itself. Then the best score is at least 100
  and \<open>find_best_match_in_database\<close> returns the stored answer of the first
  highest-scoring entry; \<open>get_answer\<close> tags that answer \<open>"database"\<close> when it is not
  empty. When every other question text scores below 100, the best match is the query
  itself with score 100 and the entry is the first one with that question.
\<close>

theorem exact_match_first_entry:
  assumes "query \<noteq> []" and "e \<in> set (questions (agent_database self))"
    and "question e = query" and "sc query query = 100"
  shows "\<exists>b. best_entry sc query (questions (agent_database self)) = Some b
    \<and> 100 \<le> best_score sc query (questions (agent_database self))
    \<and> fst (find_best_match_in_database sc self query 80) = Inr (Some (answer b))
    \<and> (answer b \<noteq> [] \<longrightarrow>
         fst (get_answer sc tavily self query)
           = Inr \<lparr>source = ''database'', result_answer = answer b\<rparr>)
    \<and> ((\<forall>x\<in>set (questions (agent_database self)).
           question x \<noteq> query \<longrightarrow> sc query (question x) < 100) \<longrightarrow>
         extractOne sc query (map question (questions (agent_database self)))
           = Some (query, 100)
         \<and> find (\<lambda>x. question x = query) (questions (agent_database self)) = Some b)"
proof -
  let ?es = "questions (agent_database self)"
  from assms(2) have ne: "?es \<noteq> []" by auto
  have e100: "entry_score sc query e = 100"
    using assms(3,4) by (simp add: entry_score_def)
  from best_score_ge[OF assms(2), of sc query] e100
  have ge: "100 \<le> best_score sc query ?es" by simp
  from find_best_match_value[OF assms(1) ne, of sc 80]
  obtain b where be: "best_entry sc query ?es = Some b"
    and eq: "entry_score sc query b = best_score sc query ?es"
    and v: "find_best_match_in_database sc self query 80 =
       (Inr (if 80 \<le> best_score sc query ?es then Some (answer b) else None),
        map question ?es)"
    by (elim exE conjE)
  from extractOne_best_entry[OF ne, of sc query] be
  have ex: "extractOne sc query (map question ?es) = Some (question b, best_score sc query ?es)"
    by auto
  have fb: "fst (find_best_match_in_database sc self query 80) = Inr (Some (answer b))"
    using v ge by simp
  have ga: "answer b \<noteq> [] \<longrightarrow>
         fst (get_answer sc tavily self query)
           = Inr \<lparr>source = ''database'', result_answer = answer b\<rparr>"
  proof
    assume nb: "answer b \<noteq> []"
    obtain s calls where s: "search_web tavily self query = (Inr s, calls)"
      using search_web_pair by blast
    from get_answer_cases[OF fb s] nb
    show "fst (get_answer sc tavily self query)
           = Inr \<lparr>source = ''database'', result_answer = answer b\<rparr>" by simp
  qed
  have only: "(\<forall>x\<in>set ?es. question x \<noteq> query \<longrightarrow> sc query (question x) < 100) \<longrightarrow>
         extractOne sc query (map question ?es) = Some (query, 100)
         \<and> find (\<lambda>x. question x = query) ?es = Some b"
  proof
    assume low: "\<forall>x\<in>set ?es. question x \<noteq> query \<longrightarrow> sc query (question x) < 100"
    from be have fnd: "find (\<lambda>x. entry_score sc query x = best_score sc query ?es) ?es = Some b"
      by (simp add: best_entry_def)
    then have mem: "b \<in> set ?es" by (auto simp: find_Some_iff)
    from eq ge have "\<not> sc query (question b) < 100" by (simp add: entry_score_def)
    with low mem have qb: "question b = query" by blast
    with eq assms(4) have bs: "best_score sc query ?es = 100" by (simp add: entry_score_def)
    have "find (\<lambda>x. question x = query) ?es = Some b"
    proof (rule find_refine[where P = "\<lambda>x. entry_score sc query x = best_score sc query ?es"])
      show "find (\<lambda>x. entry_score sc query x = best_score sc query ?es) ?es = Some b"
        by (rule fnd)
      show "\<And>x. question x = query \<Longrightarrow> entry_score sc query x = best_score sc query ?es"
        using assms(4) bs by (simp add: entry_score_def)
      show "question b = query" by (rule qb)
    qed
    moreover from ex qb bs
    have "extractOne sc query (map question ?es) = Some (query, 100)" by simp
    ultimately show "extractOne sc query (map question ?es) = Some (query, 100)
         \<and> find (\<lambda>x. question x = query) ?es = Some b" by simp
  qed
  from be ge fb ga only show ?thesis by simp
qed

text \<open>
  A database where the question asked is stored twice, after another entry: the answer
  is that of the first of the two. And the example of the specification: the stored
  question asked word for word.
\<close>

theorem exact_match_first_entry_witness:
  "''B?'' \<noteq> []
   \<and> \<lparr>question = ''B?'', answer = ''b2''\<rparr>
        \<in> set (questions (agent_database (agent_of tied_entries None)))
   \<and> exact_scorer ''B?'' ''B?'' = 100
   \<and> extractOne exact_scorer ''B?'' (map question tied_entries) = Some (''B?'', 100)
   \<and> fst (find_best_match_in_database exact_scorer (agent_of tied_entries None) ''B?'' 80)
       = Inr (Some ''b1'')
   \<and> fst (get_answer exact_scorer five_results (agent_of tied_entries None) ''B?'')
       = Inr \<lparr>source = ''database'', result_answer = ''b1''\<rparr>
   \<and> fst (get_answer exact_scorer five_results (agent_of faq_entries None)
        ''What is a voice assistant?'')
       = Inr \<lparr>source = ''database'', result_answer = ''A voice assistant is...''\<rparr>"
  using exact_match_first_entry[of "''B?''" "\<lparr>question = ''B?'', answer = ''b2''\<rparr>"
      "agent_of tied_entries None" exact_scorer five_results]
    exact_match_first_entry[of "''What is a voice assistant?''"
      "\<lparr>question = ''What is a voice assistant?'', answer = ''A voice assistant is...''\<rparr>"
      "agent_of faq_entries None" exact_scorer five_results]
  by (simp add: get_answer_def find_best_match_in_database_def extractOne_def
      extractWithoutOrder_def exact_scorer_def agent_of_def faq_entries_def tied_entries_def)

text \<open>
  Claim C6 as stated fails, in four ways. With two entries of the same question, the
  second one's answer is never returned although its question equals the query,
  whatever the scorer. An exact match whose stored answer is empty is tagged \<open>"web"\<close>,
  whatever the scorer. A query without a letter or a digit scores 0 against itself
  under the library's processing, and is not matched. And when an earlier question
  differs from the query in case only, it scores 100 as well and its answer is the one
  returned.
\<close>

theorem exact_match_counterexample:
  "question (duplicate_entries ! 1) = ''Q'' \<and> answer (duplicate_entries ! 1) = ''A2''
   \<and> exact_scorer ''Q'' ''Q'' = 100
   \<and> fst (find_best_match_in_database exact_scorer (agent_of duplicate_entries None) ''Q'' 80)
       = Inr (Some ''A1'')
   \<and> (\<forall>sc. fst (find_best_match_in_database sc (agent_of duplicate_entries None) ''Q'' 80)
             \<noteq> Inr (Some ''A2''))
   \<and> question (blank_entries ! 0) = ''Q''
   \<and> fst (find_best_match_in_database exact_scorer (agent_of blank_entries None) ''Q'' 80)
       = Inr (Some [])
   \<and> (\<forall>sc tavily.
         map_sum id source (fst (get_answer sc tavily (agent_of blank_entries None) ''Q''))
           = Inr ''web'')
   \<and> question (punctuation_entries ! 0) = ''!!!''
   \<and> extractOne processed_scorer ''!!!'' (map question punctuation_entries) = Some (''!!!'', 0)
   \<and> fst (find_best_match_in_database processed_scorer (agent_of punctuation_entries None)
        ''!!!'' 80) = Inr None
   \<and> question (case_entries ! 1) = ''FAQ'' \<and> answer (case_entries ! 1) = ''A2''
   \<and> processed_scorer ''FAQ'' ''FAQ'' = 100
   \<and> extractOne processed_scorer ''FAQ'' (map question case_entries) = Some (''faq'', 100)
   \<and> fst (find_best_match_in_database processed_scorer (agent_of case_entries None)
        ''FAQ'' 80) = Inr (Some ''A1'')"
proof -
  have dup: "fst (find_best_match_in_database sc (agent_of duplicate_entries None) ''Q'' 80)
      = Inr (if 80 \<le> sc ''Q'' ''Q'' then Some ''A1'' else None)" for sc
    by (simp add: find_best_match_in_database_def extractOne_def extractWithoutOrder_def
        agent_of_def duplicate_entries_def Let_def)
  have blank: "fst (find_best_match_in_database sc (agent_of blank_entries None) ''Q'' 80)
      = Inr (if 80 \<le> sc ''Q'' ''Q'' then Some [] else None)" for sc
    by (simp add: find_best_match_in_database_def extractOne_def extractWithoutOrder_def
        agent_of_def blank_entries_def Let_def)
  have web: "map_sum id source (fst (get_answer sc tavily (agent_of blank_entries None) ''Q''))
      = Inr ''web''" for sc tavily
    unfolding get_answer_def blank by (simp add: search_web_def agent_of_def)
  have basics: "question (duplicate_entries ! 1) = ''Q''" "answer (duplicate_entries ! 1) = ''A2''"
    "question (blank_entries ! 0) = ''Q''" "exact_scorer ''Q'' ''Q'' = 100"
    "question (punctuation_entries ! 0) = ''!!!''"
    "question (case_entries ! 1) = ''FAQ''" "answer (case_entries ! 1) = ''A2''"
    by (simp_all add: duplicate_entries_def blank_entries_def exact_scorer_def
        punctuation_entries_def case_entries_def)
  have scores: "processed_scorer ''!!!'' ''!!!'' = 0" "processed_scorer ''FAQ'' ''FAQ'' = 100"
    "processed_scorer ''FAQ'' ''faq'' = 100"
    by code_simp+
  have punct: "extractOne processed_scorer ''!!!'' (map question punctuation_entries)
        = Some (''!!!'', 0)"
    "fst (find_best_match_in_database processed_scorer (agent_of punctuation_entries None)
        ''!!!'' 80) = Inr None"
    by (simp_all add: find_best_match_in_database_def extractOne_def extractWithoutOrder_def
        agent_of_def punctuation_entries_def Let_def scores)
  have cased: "extractOne processed_scorer ''FAQ'' (map question case_entries)
        = Some (''faq'', 100)"
    "fst (find_best_match_in_database processed_scorer (agent_of case_entries None)
        ''FAQ'' 80) = Inr (Some ''A1'')"
    by (simp_all add: find_best_match_in_database_def extractOne_def extractWithoutOrder_def
        agent_of_def case_entries_def Let_def scores)
  from dup blank web basics scores(2) punct cased show ?thesis by simp
qed







end
